theory Spec2Isabelle
  imports Complex_Main "HOL-Library.Sublist" "HOL-Library.List_Lexorder" "HOL-Library.Char_ord"
begin

section \<open>Strings\<close>

text \<open>
  JavaScript strings are modelled as \<^typ>\<open>string\<close>. \<open>String.prototype.toLowerCase\<close> is
  modelled on the letters \<open>A\<close> to \<open>Z\<close>, which are the only characters whose lower-case
  form is one of the letters of the words the program compares with.
\<close>

definition lower_char :: "char \<Rightarrow> char" where
  "lower_char c =
     (case map_of (zip ''ABCDEFGHIJKLMNOPQRSTUVWXYZ'' ''abcdefghijklmnopqrstuvwxyz'') c of
        None \<Rightarrow> c
      | Some d \<Rightarrow> d)"

definition toLowerCase :: "string \<Rightarrow> string" where
  "toLowerCase s = map lower_char s"

text \<open>\<open>v.includes(p)\<close>: \<open>p\<close> occurs in \<open>v\<close> as a contiguous run of characters.\<close>

definition includes_str :: "string \<Rightarrow> string \<Rightarrow> bool" where
  "includes_str v p = sublist p v"

section \<open>Status Normalizer\<close>

text \<open>
  \<open>normalizeStatus(s)\<close>, lines 221 to 227 of \<open>fetch-status.mjs\<close>. The argument is a string or
  is absent (\<open>undefined\<close>, \<open>null\<close>); \<open>String(s || "")\<close> turns an absent argument into the
  empty string.
\<close>

definition normalizeStatus :: "string option \<Rightarrow> string" where
  "normalizeStatus s =
     (let v = toLowerCase (case s of None \<Rightarrow> [] | Some x \<Rightarrow> x) in
      if includes_str v ''open'' then ''open''
      else if includes_str v ''hold'' then ''on-hold''
      else if includes_str v ''closed'' then ''closed''
      else ''unknown'')"

section \<open>Timestamps\<close>

text \<open>
  Instants are integers: milliseconds since the epoch, what \<open>getTime()\<close> returns.
  A timestamp kept in a file (\<open>fetched_at\<close>) is a string that the program only ever hands to
  \<open>Date.parse\<close> or \<open>new Date\<close>, tests for truthiness and copies. It is modelled by what the
  parser makes of it: \<open>Time ms\<close> is a string that parses to the instant \<open>ms\<close> (what
  \<open>toISOString\<close> writes), \<open>NotADate s\<close> is anything else (the parser returns \<open>NaN\<close>), and
  \<open>NotADate []\<close> also stands for a field that is absent.
\<close>

datatype timestamp = Time int | NotADate string

fun Date_parse :: "timestamp \<Rightarrow> int option" where
  "Date_parse (Time ms) = Some ms"
| "Date_parse (NotADate s) = None"

fun truthy :: "timestamp \<Rightarrow> bool" where
  "truthy (Time ms) = True"
| "truthy (NotADate s) = (s \<noteq> [])"

definition toISOString :: "int \<Rightarrow> timestamp" where
  "toISOString ms = Time ms"

section \<open>Snapshot Store\<close>

text \<open>
  A snapshot as line 274 pushes it. The objects \<open>lifts\<close> and \<open>trails\<close> are lists of
  (name, status) entries in the order of \<open>Object.entries\<close>; the payloads that the program
  copies without looking inside are strings.
\<close>

type_synonym json = string

record snapshot =
  fetched_at :: timestamp
  source_updated :: json
  lifts :: "(string \<times> string) list"
  trails :: "(string \<times> string) list"
  operations :: json

definition HISTORY_RETENTION_HOURS :: int where
  "HISTORY_RETENTION_HOURS = 48"

text \<open>
  \<open>pruneSnapshots(snapshots, now)\<close>, lines 101 to 107: the filter keeps a snapshot when
  \<open>Date.parse\<close> of its timestamp is a number and that number is at least the cutoff.
\<close>

definition pruneSnapshots :: "snapshot list \<Rightarrow> int \<Rightarrow> snapshot list" where
  "pruneSnapshots snapshots now =
     (let cutoff = now - HISTORY_RETENTION_HOURS * 60 * 60 * 1000 in
      filter (\<lambda>s. case Date_parse (fetched_at s) of
                     None \<Rightarrow> False
                   | Some t \<Rightarrow> t \<ge> cutoff) snapshots)"

text \<open>
  The retention rule in the words of the specification: a snapshot stays when its timestamp
  parses and lies in the closed interval from \<open>now - 48h\<close> to \<open>now\<close>.
\<close>

definition retained_in_window :: "snapshot list \<Rightarrow> int \<Rightarrow> snapshot list" where
  "retained_in_window snapshots now =
     filter (\<lambda>s. case Date_parse (fetched_at s) of
                    None \<Rightarrow> False
                  | Some t \<Rightarrow> now - 48 * 60 * 60 * 1000 \<le> t \<and> t \<le> now) snapshots"

section \<open>Nearest-Snapshot Locator\<close>

text \<open>\<open>bestDiff\<close> starts at \<open>Infinity\<close> and holds a distance in milliseconds afterwards.\<close>

datatype bound = Infinity | Finite int

fun less_bound :: "int \<Rightarrow> bound \<Rightarrow> bool" where
  "less_bound d Infinity = True"
| "less_bound d (Finite b) = (d < b)"

fun exceeds :: "bound \<Rightarrow> int \<Rightarrow> bool" where
  "exceeds Infinity tol = True"
| "exceeds (Finite b) tol = (b > tol)"

text \<open>The \<open>for\<close> loop of lines 116 to 124, on the pair of \<open>best\<close> and \<open>bestDiff\<close>.\<close>

fun nearest_loop ::
  "int \<Rightarrow> snapshot list \<Rightarrow> snapshot option \<times> bound \<Rightarrow> snapshot option \<times> bound" where
  "nearest_loop targetMs [] (best, bestDiff) = (best, bestDiff)"
| "nearest_loop targetMs (s # rest) (best, bestDiff) =
     (case Date_parse (fetched_at s) of
        None \<Rightarrow> nearest_loop targetMs rest (best, bestDiff)
      | Some ms \<Rightarrow>
          (let diff = \<bar>ms - targetMs\<bar> in
           if less_bound diff bestDiff
           then nearest_loop targetMs rest (Some s, Finite diff)
           else nearest_loop targetMs rest (best, bestDiff)))"

definition nearestSnapshot :: "snapshot list \<Rightarrow> int \<Rightarrow> int \<Rightarrow> snapshot option" where
  "nearestSnapshot snapshots targetMs toleranceMinutes =
     (let tolMs = toleranceMinutes * 60 * 1000;
          (best, bestDiff) = nearest_loop targetMs snapshots (None, Infinity)
      in if best = None \<or> exceeds bestDiff tolMs then None else best)"

text \<open>
  The distance of a snapshot from the target, when its timestamp parses, and the list of the
  distances of the snapshots that have one.
\<close>

definition distance :: "int \<Rightarrow> snapshot \<Rightarrow> int option" where
  "distance targetMs s = map_option (\<lambda>ms. \<bar>ms - targetMs\<bar>) (Date_parse (fetched_at s))"

definition distances :: "int \<Rightarrow> snapshot list \<Rightarrow> int list" where
  "distances targetMs snapshots = List.map_filter (distance targetMs) snapshots"

definition min_distance :: "int \<Rightarrow> snapshot list \<Rightarrow> int" where
  "min_distance targetMs snapshots = Min (set (distances targetMs snapshots))"

section \<open>Diff Engine\<close>

text \<open>
  A JavaScript \<open>Set\<close> of names keeps its elements in the order of their first insertion:
  it is a list without repetition, and \<open>add\<close> appends a name that is not yet there.
\<close>

definition set_add :: "string list \<Rightarrow> string \<Rightarrow> string list" where
  "set_add out name = (if name \<in> set out then out else out @ [name])"

definition set_has :: "string list \<Rightarrow> string \<Rightarrow> bool" where
  "set_has out name = (name \<in> set out)"

text \<open>\<open>setOfOpen(obj)\<close>, lines 130 to 136: the loop over \<open>Object.entries(obj)\<close>.\<close>

fun setOfOpen_loop :: "(string \<times> string) list \<Rightarrow> string list \<Rightarrow> string list" where
  "setOfOpen_loop [] out = out"
| "setOfOpen_loop ((name, status) # entries) out =
     (if toLowerCase status = ''open''
      then setOfOpen_loop entries (set_add out name)
      else setOfOpen_loop entries out)"

definition setOfOpen :: "(string \<times> string) list \<Rightarrow> string list" where
  "setOfOpen obj = setOfOpen_loop obj []"

record diff =
  opened :: "string list"
  closed :: "string list"

text \<open>
  \<open>diffOpens(prev, curr)\<close>, lines 138 to 151 (\<open>curr\<close> is written \<open>cur\<close>). Each \<open>for\<close> loop
  pushes, in the order of the set it walks, the names the other set does not have; \<open>sort()\<close>
  without a comparison function orders strings lexicographically by character code.
\<close>

definition diffOpens :: "(string \<times> string) list \<Rightarrow> (string \<times> string) list \<Rightarrow> diff" where
  "diffOpens prev cur =
     (let prevOpen = setOfOpen prev;
          currOpen = setOfOpen cur;
          opened = filter (\<lambda>name. \<not> set_has prevOpen name) currOpen;
          closed = filter (\<lambda>name. \<not> set_has currOpen name) prevOpen
      in \<lparr>opened = sort opened, closed = sort closed\<rparr>)"

text \<open>
  The status vocabulary of the data model: the four strings \<open>normalizeStatus\<close> returns. A
  name-to-status map is an object whose keys are distinct and whose values are statuses.
\<close>

definition statuses :: "string set" where
  "statuses = {''open'', ''on-hold'', ''closed'', ''unknown''}"

definition status_map :: "(string \<times> string) list \<Rightarrow> bool" where
  "status_map obj = (distinct (map fst obj) \<and> list_all (\<lambda>(name, status). status \<in> statuses) obj)"

section \<open>Schedule Gate\<close>

text \<open>
  The wall-clock fields \<open>getVancouverParts\<close> returns; \<open>getTzParts\<close> returns the same
  fields and the second.
\<close>

record vparts =
  year :: int
  month :: int
  day :: int
  hour :: int
  minute :: int

record tzparts = vparts +
  second :: int

definition inSeason :: "int \<Rightarrow> bool" where
  "inSeason month' = (month' = 11 \<or> month' = 12 \<or> (month' \<ge> 1 \<and> month' \<le> 5))"

definition minutesSinceMidnight :: "'a vparts_scheme \<Rightarrow> int" where
  "minutesSinceMidnight p = hour p * 60 + minute p"

text \<open>\<open>getMinIntervalMs(nowParts)\<close>, lines 161 to 183; \<open>None\<close> is the \<open>null\<close> it returns.\<close>

definition getMinIntervalMs :: "'a vparts_scheme \<Rightarrow> int option" where
  "getMinIntervalMs nowParts =
     (if \<not> inSeason (month nowParts) then None
      else let m = minutesSinceMidnight nowParts in
        if m \<ge> 23 * 60 then None
        else if m < 5 * 60 then None
        else if m \<ge> 5 * 60 \<and> m < 7 * 60 then Some (10 * 60 * 1000)
        else if m \<ge> 7 * 60 \<and> m < (7 * 60 + 50) then Some (10 * 60 * 1000)
        else if m \<ge> (7 * 60 + 50) \<and> m < (10 * 60 + 30) then Some (5 * 60 * 1000)
        else Some (10 * 60 * 1000))"

text \<open>
  The current-status record \<open>status.json\<close> holds: the fields of a snapshot and two more.
\<close>

record status_record = snapshot +
  lifts_updated :: json
  trails_updated :: json

text \<open>
  \<open>shouldRunNow()\<close>, lines 188 to 214, as a function of what it reads: the instant \<open>now\<close>,
  the wall-clock fields of that instant in the fixed timezone, and \<open>status.json\<close>
  (\<open>None\<close> when the file is missing or unreadable, which the \<open>catch\<close> block turns into
  "allow the run").
\<close>

definition shouldRunNow :: "int \<Rightarrow> 'a vparts_scheme \<Rightarrow> status_record option \<Rightarrow> bool" where
  "shouldRunNow now nowParts status_json =
     (case getMinIntervalMs nowParts of
        None \<Rightarrow> False
      | Some minIntervalMs \<Rightarrow>
          (case status_json of
             None \<Rightarrow> True
           | Some existing \<Rightarrow>
               if truthy (fetched_at existing) then
                 (case Date_parse (fetched_at existing) of
                    None \<Rightarrow> True
                  | Some last' \<Rightarrow>
                      let delta = now - last' in
                      if delta \<ge> 0 \<and> delta < minIntervalMs then False else True)
               else True))"

text \<open>The instant of the last successful poll, when \<open>status.json\<close> records one that parses.\<close>

definition last_poll :: "status_record option \<Rightarrow> int option" where
  "last_poll status_json =
     (case status_json of None \<Rightarrow> None | Some existing \<Rightarrow> Date_parse (fetched_at existing))"

text \<open>The rolling-opening period, 07:50 to 10:30, in minutes since midnight.\<close>

definition rolling_opening :: "int \<Rightarrow> bool" where
  "rolling_opening m = (7 * 60 + 50 \<le> m \<and> m < 10 * 60 + 30)"

section \<open>Timezone Resolver\<close>

text \<open>
  \<open>Date.UTC(year, monthIndex, day, hour, minute, second)\<close> of ECMAScript: the day number
  of the first day of the month (the month index may overflow into the years, the other
  fields into the next unit), then the time within the day, in milliseconds. Years 0 to 99
  stand for 1900 to 1999. The range check of \<open>TimeClip\<close> (about 273,000 years around the
  epoch) is left out.
\<close>

definition days_from_civil :: "int \<Rightarrow> int \<Rightarrow> int \<Rightarrow> int" where
  "days_from_civil y m d =
     (let y' = (if m \<le> 2 then y - 1 else y);
          era = y' div 400;
          yoe = y' - era * 400;
          mp = (if m > 2 then m - 3 else m + 9);
          doy = (153 * mp + 2) div 5 + d - 1;
          doe = yoe * 365 + yoe div 4 - yoe div 100 + doy
      in era * 146097 + doe - 719468)"

definition Date_UTC :: "int \<Rightarrow> int \<Rightarrow> int \<Rightarrow> int \<Rightarrow> int \<Rightarrow> int \<Rightarrow> int" where
  "Date_UTC y monthIndex d h mi s =
     (let yr = (if 0 \<le> y \<and> y \<le> 99 then 1900 + y else y);
          ym = yr + monthIndex div 12;
          mn = monthIndex mod 12
      in (days_from_civil ym (mn + 1) 1 + d - 1) * 86400000
         + h * 3600000 + mi * 60000 + s * 1000)"

text \<open>
  \<open>new Date(x)\<close> for a number \<open>x\<close> keeps the integer part. JavaScript numbers are modelled
  by real numbers: the quotients and products of \<open>getOffsetMinutes\<close> and \<open>zonedTimeToUtc\<close>
  are exact.
\<close>

definition new_Date :: "real \<Rightarrow> int" where
  "new_Date x = (if x < 0 then \<lceil>x\<rceil> else \<lfloor>x\<rfloor>)"

definition TIME_ZONE :: string where
  "TIME_ZONE = ''America/Vancouver''"

text \<open>
  \<open>Intl.DateTimeFormat\<close> with the fixed timezone is the platform's: every function that
  formats takes it as the parameter \<open>fmt\<close>, from an instant to the numeric wall-clock fields.
  \<open>getTzParts\<close> (lines 44 to 65) returns all six fields, \<open>getVancouverParts\<close> (lines 16 to
  35) asks for no seconds.
\<close>

definition getTzParts :: "(int \<Rightarrow> tzparts) \<Rightarrow> int \<Rightarrow> tzparts" where
  "getTzParts fmt date = fmt date"

definition getVancouverParts :: "(int \<Rightarrow> tzparts) \<Rightarrow> int \<Rightarrow> vparts" where
  "getVancouverParts fmt date =
     \<lparr>year = year (fmt date), month = month (fmt date), day = day (fmt date),
      hour = hour (fmt date), minute = minute (fmt date)\<rparr>"

text \<open>\<open>getOffsetMinutes(date)\<close>, lines 67 to 72.\<close>

definition getOffsetMinutes :: "(int \<Rightarrow> tzparts) \<Rightarrow> int \<Rightarrow> real" where
  "getOffsetMinutes fmt date =
     (let p = getTzParts fmt date;
          localAsUTC = Date_UTC (year p) (month p - 1) (day p) (hour p) (minute p) (second p)
      in real_of_int (localAsUTC - date) / 60000)"

text \<open>\<open>zonedTimeToUtc(parts)\<close>, lines 74 to 86, with its two passes.\<close>

definition zonedTimeToUtc :: "(int \<Rightarrow> tzparts) \<Rightarrow> tzparts \<Rightarrow> int" where
  "zonedTimeToUtc fmt p =
     (let guess = Date_UTC (year p) (month p - 1) (day p) (hour p) (minute p) (second p);
          offset = getOffsetMinutes fmt guess;
          utcMs = real_of_int guess - offset * 60000;
          guess2 = new_Date utcMs;
          offset2 = getOffsetMinutes fmt guess2;
          utcMs2 = real_of_int
                     (Date_UTC (year p) (month p - 1) (day p) (hour p) (minute p) (second p))
                   - offset2 * 60000
      in new_Date utcMs2)"

text \<open>\<open>String(n)\<close> for an integer, \<open>padStart(2, "0")\<close>, and \<open>ymdKey\<close> (lines 88 to 90).\<close>

definition digit_char :: "nat \<Rightarrow> char" where
  "digit_char n = ''0123456789'' ! n"

fun string_of_nat :: "nat \<Rightarrow> string" where
  "string_of_nat n =
     (if n < 10 then [digit_char n] else string_of_nat (n div 10) @ [digit_char (n mod 10)])"

declare string_of_nat.simps [simp del]

definition String_of_int :: "int \<Rightarrow> string" where
  "String_of_int i = (if i < 0 then CHR ''-'' # string_of_nat (nat (- i)) else string_of_nat (nat i))"

definition padStart2 :: "string \<Rightarrow> string" where
  "padStart2 s = replicate (2 - length s) CHR ''0'' @ s"

definition ymdKey :: "'a vparts_scheme \<Rightarrow> string" where
  "ymdKey p =
     String_of_int (year p) @ ''-'' @ padStart2 (String_of_int (month p))
       @ ''-'' @ padStart2 (String_of_int (day p))"

text \<open>
  The wall clock of a zone whose offset from UTC at the instant \<open>u\<close> is \<open>off\<close> minutes: the
  formatter shows the fields of \<open>u\<close>, cut to the second, moved by the offset.
\<close>

definition shows_offset :: "(int \<Rightarrow> tzparts) \<Rightarrow> int \<Rightarrow> int \<Rightarrow> bool" where
  "shows_offset fmt u off =
     (let p = fmt u in
      Date_UTC (year p) (month p - 1) (day p) (hour p) (minute p) (second p)
        = u - u mod 1000 + off * 60000)"

section \<open>History Log and Event record\<close>

record meta =
  last_event_key :: "string option"
  last_event_created_at :: "timestamp option"

text \<open>
  \<open>history.json\<close>. The field \<open>meta\<close> may be absent (\<open>history.meta || {}\<close>); an absent
  \<open>snapshots\<close> is the empty list (\<open>history.snapshots || []\<close>).
\<close>

record history =
  tz :: string
  snapshots :: "snapshot list"
  meta :: "meta option"

record placeholders =
  screenshot_path :: "string option"
  instagram_posted :: bool
  instagram_post_id :: "string option"
  caption :: "string option"

text \<open>
  The event object, its nested objects flattened (the core always writes \<open>placeholders\<close>;
  the publisher also copes with a file that has none): \<open>compare_from\<close> and
  \<open>compare_to\<close> are the \<open>fetched_at\<close> of \<open>compare.from\<close> and \<open>compare.to\<close> (whose labels
  are constants), the six counts are those of \<open>summary\<close>, the two diffs those of \<open>details\<close>.
\<close>

record event =
  key :: string
  created_at :: timestamp
  compare_from :: timestamp
  compare_to :: timestamp
  opened_total :: nat
  closed_total :: nat
  opened_lifts :: nat
  closed_lifts :: nat
  opened_trails :: nat
  closed_trails :: nat
  details_lifts :: diff
  details_trails :: diff
  placeholders :: "placeholders option"

text \<open>The three files the program writes; \<open>None\<close> is a file that is missing or unreadable.\<close>

record files =
  status_json :: "status_record option"
  history_json :: "history option"
  event_json :: "event option"

section \<open>Event Controller\<close>

definition OPEN_THRESHOLD :: nat where
  "OPEN_THRESHOLD = 3"

definition CLOSE_THRESHOLD :: nat where
  "CLOSE_THRESHOLD = 3"

text \<open>The key of line 304 and the object literal of lines 324 to 349.\<close>

definition eventKey_of :: "tzparts \<Rightarrow> tzparts \<Rightarrow> string" where
  "eventKey_of todayParts yesterdayParts =
     ymdKey todayParts @ ''_10am_vs_'' @ ymdKey yesterdayParts @ ''_3pm''"

definition make_event :: "string \<Rightarrow> int \<Rightarrow> snapshot \<Rightarrow> snapshot \<Rightarrow> diff \<Rightarrow> diff \<Rightarrow> event" where
  "make_event eventKey t_new snapYest3 snapToday10 liftsDiff trailsDiff =
     \<lparr>key = eventKey,
      created_at = toISOString t_new,
      compare_from = fetched_at snapYest3,
      compare_to = fetched_at snapToday10,
      opened_total = length (opened liftsDiff) + length (opened trailsDiff),
      closed_total = length (closed liftsDiff) + length (closed trailsDiff),
      opened_lifts = length (opened liftsDiff),
      closed_lifts = length (closed liftsDiff),
      opened_trails = length (opened trailsDiff),
      closed_trails = length (closed trailsDiff),
      details_lifts = liftsDiff,
      details_trails = trailsDiff,
      placeholders =
        Some \<lparr>screenshot_path = None, instagram_posted = False,
              instagram_post_id = None, caption = None\<rparr>\<rparr>"

text \<open>
  Lines 299 to 367: the two searches, the key, and the decision. The block reads the pruned
  snapshots, the two target instants, the wall-clock fields of today and of yesterday, the
  metadata (after \<open>history.meta || {}\<close>), the content of \<open>event.json\<close> and the clock reading
  that becomes \<open>created_at\<close>; it returns the content of \<open>event.json\<close> and the metadata.
\<close>

definition event_controller ::
  "snapshot list \<Rightarrow> int \<Rightarrow> int \<Rightarrow> tzparts \<Rightarrow> tzparts \<Rightarrow> meta \<Rightarrow> event option \<Rightarrow> int
     \<Rightarrow> event option \<times> meta" where
  "event_controller snaps target10amToday target3pmYesterday todayParts yesterdayParts
       meta0 event_file t_new =
     (let snapToday10 = nearestSnapshot snaps target10amToday 90;
          snapYest3 = nearestSnapshot snaps target3pmYesterday 300;
          eventKey = eventKey_of todayParts yesterdayParts;
          alreadyFired = (last_event_key meta0 = Some eventKey)
      in case (snapToday10, snapYest3) of
           (Some s10, Some s3) \<Rightarrow>
             if \<not> alreadyFired then
               (let liftsDiff = diffOpens (lifts s3) (lifts s10);
                    trailsDiff = diffOpens (trails s3) (trails s10);
                    openedCount = length (opened liftsDiff) + length (opened trailsDiff);
                    closedCount = length (closed liftsDiff) + length (closed trailsDiff);
                    significant =
                      (openedCount \<ge> OPEN_THRESHOLD \<or> closedCount \<ge> CLOSE_THRESHOLD)
                in if significant then
                     (let ev = make_event eventKey t_new s3 s10 liftsDiff trailsDiff
                      in (Some ev,
                          meta0\<lparr>last_event_key := Some eventKey,
                                last_event_created_at := Some (created_at ev)\<rparr>))
                   else (event_file, meta0))
             else (event_file, meta0)
         | _ \<Rightarrow> (event_file, meta0))"

text \<open>
  The counts the decision sums: names opened, and names closed, between the afternoon
  snapshot and the morning snapshot, lifts and trails together.
\<close>

definition opened_count :: "snapshot \<Rightarrow> snapshot \<Rightarrow> nat" where
  "opened_count snapYest3 snapToday10 =
     length (opened (diffOpens (lifts snapYest3) (lifts snapToday10)))
     + length (opened (diffOpens (trails snapYest3) (trails snapToday10)))"

definition closed_count :: "snapshot \<Rightarrow> snapshot \<Rightarrow> nat" where
  "closed_count snapYest3 snapToday10 =
     length (closed (diffOpens (lifts snapYest3) (lifts snapToday10)))
     + length (closed (diffOpens (trails snapYest3) (trails snapToday10)))"

section \<open>The polling script\<close>

text \<open>
  The response of the upstream feed: \<open>res.ok\<close>, \<open>res.status\<close> and the parsed body
  (\<open>None\<close> when \<open>res.json()\<close> throws or yields \<open>null\<close>, on which line 252 throws). A
  lift or trail of the feed has a name and two optional status fields.
\<close>

record facility =
  fac_name :: string
  fac_statusIcon :: "string option"
  fac_status :: "string option"

record area =
  area_lifts :: "facility list"
  area_trails :: "facility list"

record feed =
  feed_updated :: json
  feed_liftsUpdated :: json
  feed_trailsUpdated :: json
  feed_operations :: json
  feed_areas :: "area list"

record response =
  res_ok :: bool
  res_status :: nat
  res_json :: "feed option"

text \<open>\<open>a || b\<close> on optional strings: the first operand unless it is absent or empty.\<close>

definition js_or :: "string option \<Rightarrow> string option \<Rightarrow> string option" where
  "js_or a b = (case a of None \<Rightarrow> b | Some s \<Rightarrow> if s = [] then b else Some s)"

text \<open>
  \<open>obj[k] = v\<close>: an existing key keeps its place and takes the new value, a new key goes to
  the end.
\<close>

definition obj_set :: "(string \<times> string) list \<Rightarrow> string \<Rightarrow> string \<Rightarrow> (string \<times> string) list" where
  "obj_set obj k v =
     (if k \<in> fst ` set obj then map (\<lambda>(k', v'). if k' = k then (k', v) else (k', v')) obj
      else obj @ [(k, v)])"

text \<open>The loops of lines 241 to 248, on the pair of the objects \<open>lifts\<close> and \<open>trails\<close>.\<close>

definition normalize_into :: "(string \<times> string) list \<Rightarrow> facility list \<Rightarrow> (string \<times> string) list" where
  "normalize_into obj fs =
     foldl (\<lambda>acc f. obj_set acc (fac_name f)
                      (normalizeStatus (js_or (fac_statusIcon f) (fac_status f)))) obj fs"

definition collect_areas ::
  "area list \<Rightarrow> (string \<times> string) list \<times> (string \<times> string) list" where
  "collect_areas areas =
     foldl (\<lambda>(ls, ts) a. (normalize_into ls (area_lifts a), normalize_into ts (area_trails a)))
       ([], []) areas"

text \<open>
  The clock readings of one run, in the order the script takes them: in \<open>shouldRunNow\<close>, for
  \<open>out.fetched_at\<close>, for \<open>now\<close> (line 267) and for \<open>event.created_at\<close>.
\<close>

record clock =
  t_gate :: int
  t_fetched :: int
  t_now :: int
  t_created :: int

datatype run_error = HTTP nat | BadBody

datatype outcome = Skipped | Aborted run_error | Completed

text \<open>
  The script from line 230 to the end, as a function from the files before the run to the
  outcome and the files after it. \<open>process.exit(0)\<close> is \<open>Skipped\<close>, a \<open>throw\<close> is
  \<open>Aborted\<close>; both leave with the files as they are at that point.
\<close>

definition run :: "(int \<Rightarrow> tzparts) \<Rightarrow> clock \<Rightarrow> response \<Rightarrow> files \<Rightarrow> outcome \<times> files" where
  "run fmt clk res fs =
     (if \<not> shouldRunNow (t_gate clk) (getVancouverParts fmt (t_gate clk)) (status_json fs)
      then (Skipped, fs)
      else if \<not> res_ok res then (Aborted (HTTP (res_status res)), fs)
      else case res_json res of
        None \<Rightarrow> (Aborted BadBody, fs)
      | Some data \<Rightarrow>
        (let (lifts', trails') = collect_areas (feed_areas data);
             out = \<lparr>fetched_at = toISOString (t_fetched clk),
                    source_updated = feed_updated data,
                    lifts = lifts',
                    trails = trails',
                    operations = feed_operations data,
                    lifts_updated = feed_liftsUpdated data,
                    trails_updated = feed_trailsUpdated data\<rparr>;
             fs1 = fs\<lparr>status_json := Some out\<rparr>;
             now = t_now clk;
             history0 =
               (case history_json fs1 of
                  None \<Rightarrow>
                    \<lparr>tz = TIME_ZONE, snapshots = [],
                     meta = Some \<lparr>last_event_key = None, last_event_created_at = None\<rparr>\<rparr>
                | Some h \<Rightarrow> h);
             pushed = snapshots history0 @
                        [\<lparr>fetched_at = fetched_at out, source_updated = source_updated out,
                          lifts = lifts out, trails = trails out, operations = operations out\<rparr>];
             pruned = pruneSnapshots pushed now;
             todayParts = getTzParts fmt now;
             yesterdayParts = getTzParts fmt (now - 24 * 60 * 60 * 1000);
             target10amToday =
               zonedTimeToUtc fmt \<lparr>year = year todayParts, month = month todayParts,
                                   day = day todayParts, hour = 10, minute = 0, second = 0\<rparr>;
             target3pmYesterday =
               zonedTimeToUtc fmt \<lparr>year = year yesterdayParts, month = month yesterdayParts,
                                   day = day yesterdayParts, hour = 15, minute = 0, second = 0\<rparr>;
             meta0 = (case meta history0 of
                        None \<Rightarrow> \<lparr>last_event_key = None, last_event_created_at = None\<rparr>
                      | Some m \<Rightarrow> m);
             (event_file, meta1) =
               event_controller pruned target10amToday target3pmYesterday
                 todayParts yesterdayParts meta0 (event_json fs1) (t_created clk);
             history1 = history0\<lparr>snapshots := pruned, meta := Some meta1\<rparr>
         in (Completed, fs1\<lparr>event_json := event_file, history_json := Some history1\<rparr>)))"

section \<open>A sample timezone\<close>

text \<open>
  The fields of an instant in UTC, by the inverse of the day count of \<open>Date.UTC\<close>, and the
  wall clock of America/Vancouver for the instants from November 2023 to March 2025: Pacific
  Daylight Time (UTC-7) from 2024-03-10T10:00Z to 2024-11-03T09:00Z, Pacific Standard Time
  (UTC-8) before and after. This formatter is the one the concrete runs below use.
\<close>

definition civil_from_days :: "int \<Rightarrow> int \<times> int \<times> int" where
  "civil_from_days z0 =
     (let z = z0 + 719468;
          era = z div 146097;
          doe = z - era * 146097;
          yoe = (doe - doe div 1460 + doe div 36524 - doe div 146096) div 365;
          y = yoe + era * 400;
          doy = doe - (365 * yoe + yoe div 4 - yoe div 100);
          mp = (5 * doy + 2) div 153;
          d = doy - (153 * mp + 2) div 5 + 1;
          m = (if mp < 10 then mp + 3 else mp - 9)
      in (if m \<le> 2 then y + 1 else y, m, d))"

definition utc_fields :: "int \<Rightarrow> tzparts" where
  "utc_fields u =
     (let (y, m, d) = civil_from_days (u div 86400000);
          r = u mod 86400000
      in \<lparr>year = y, month = m, day = d, hour = r div 3600000,
          minute = r mod 3600000 div 60000, second = r mod 60000 div 1000\<rparr>)"

definition vancouver_offset :: "int \<Rightarrow> int" where
  "vancouver_offset u = (if 1710064800000 \<le> u \<and> u < 1730624400000 then - 420 else - 480)"

definition vancouver :: "int \<Rightarrow> tzparts" where
  "vancouver u = utc_fields (u + vancouver_offset u * 60000)"

section \<open>A sample history\<close>

text \<open>
  Two snapshots around the targets of 16 January 2024, in the sample zone: yesterday 15:02
  with one lift of three open, today 09:58 with the three lifts and one trail open; and a
  snapshot of yesterday 11:40, which is 200 minutes before the afternoon target. Then a
  current-status record written at a given instant, and the empty metadata and files.
\<close>

definition target10am :: int where
  "target10am = 1705428000000"

definition target3pm :: int where
  "target3pm = 1705359600000"

definition snap_yesterday :: snapshot where
  "snap_yesterday =
     \<lparr>fetched_at = Time 1705359720000, source_updated = [],
      lifts = [(''A'', ''open''), (''B'', ''closed''), (''C'', ''closed'')],
      trails = [], operations = []\<rparr>"

definition snap_today :: snapshot where
  "snap_today =
     \<lparr>fetched_at = Time 1705427880000, source_updated = [],
      lifts = [(''A'', ''open''), (''B'', ''open''), (''C'', ''open'')],
      trails = [(''Run'', ''open'')], operations = []\<rparr>"

definition snap_yesterday_early :: snapshot where
  "snap_yesterday_early =
     \<lparr>fetched_at = Time 1705347600000, source_updated = [],
      lifts = [(''A'', ''closed''), (''B'', ''closed''), (''C'', ''closed'')],
      trails = [], operations = []\<rparr>"

definition status_written_at :: "int \<Rightarrow> status_record" where
  "status_written_at t =
     \<lparr>fetched_at = Time t, source_updated = [], lifts = [], trails = [], operations = [],
      lifts_updated = [], trails_updated = []\<rparr>"

definition no_meta :: meta where
  "no_meta = \<lparr>last_event_key = None, last_event_created_at = None\<rparr>"

definition no_files :: files where
  "no_files = \<lparr>status_json = None, history_json = None, event_json = None\<rparr>"

section \<open>The publisher\<close>
















section \<open>A sample publisher run\<close>






chapter \<open>Properties\<close>

section \<open>Status Normalizer\<close>

text \<open>
  Claim C2. For every input, \<open>normalizeStatus\<close> returns exactly one of the four statuses:
  \<open>open\<close> when the lower-cased input contains "open", otherwise \<open>on-hold\<close> when it contains
  "hold", otherwise \<open>closed\<close> when it contains "closed", otherwise \<open>unknown\<close>. The function
  has no failing branch, and being a function of its argument alone it is deterministic.
\<close>

theorem normalizeStatus_total:
  "normalizeStatus s \<in> statuses \<and>
   normalizeStatus s =
     (let v = toLowerCase (case s of None \<Rightarrow> [] | Some x \<Rightarrow> x) in
      if \<exists>ps ss. v = ps @ ''open'' @ ss then ''open''
      else if \<exists>ps ss. v = ps @ ''hold'' @ ss then ''on-hold''
      else if \<exists>ps ss. v = ps @ ''closed'' @ ss then ''closed''
      else ''unknown'')"
  unfolding normalizeStatus_def includes_str_def sublist_def statuses_def Let_def
  by simp

theorem normalizeStatus_total_witness:
  "normalizeStatus (Some ''Re-Opened'') = ''open'' \<and> normalizeStatus (Some ''On Hold'') \<in> statuses"
  using normalizeStatus_total [of "Some ''On Hold''"]
  by (simp add: normalizeStatus_def toLowerCase_def lower_char_def includes_str_def sublist_code)

section \<open>Snapshot Store\<close>

lemma pruneSnapshots_filter:
  "pruneSnapshots snaps now =
     filter (\<lambda>s. \<exists>t. Date_parse (fetched_at s) = Some t \<and> now - 172800000 \<le> t) snaps"
  unfolding pruneSnapshots_def HISTORY_RETENTION_HOURS_def Let_def
  by (rule filter_cong) (auto split: option.splits)

text \<open>
  Claim C3, as the code has it. \<open>pruneSnapshots\<close> keeps, in their order, exactly the
  snapshots whose timestamp parses and is not older than \<open>now - 48h\<close>; a snapshot whose
  timestamp does not parse is dropped; no upper bound is applied, so a snapshot later than
  \<open>now\<close> stays. Pruning again with the same \<open>now\<close> changes nothing.
\<close>

theorem pruneSnapshots_retains:
  "pruneSnapshots snaps now =
     filter (\<lambda>s. \<exists>t. Date_parse (fetched_at s) = Some t \<and> now - 48 * 60 * 60 * 1000 \<le> t)
       snaps
   \<and> pruneSnapshots (pruneSnapshots snaps now) now = pruneSnapshots snaps now"
  by (simp add: pruneSnapshots_filter)

text \<open>
  Claim C3 as stated fails: with \<open>now = 1000\<close>, a snapshot taken at \<open>5000\<close> lies outside the
  closed interval that ends at \<open>now\<close>, and \<open>pruneSnapshots\<close> keeps it.
\<close>

theorem pruneSnapshots_keeps_future:
  "pruneSnapshots
     [\<lparr>fetched_at = Time 5000, source_updated = [], lifts = [], trails = [], operations = []\<rparr>]
     1000
   = [\<lparr>fetched_at = Time 5000, source_updated = [], lifts = [], trails = [], operations = []\<rparr>]
   \<and> retained_in_window
     [\<lparr>fetched_at = Time 5000, source_updated = [], lifts = [], trails = [], operations = []\<rparr>]
     1000
   = []"
  by (simp add: pruneSnapshots_def retained_in_window_def HISTORY_RETENTION_HOURS_def)

section \<open>Nearest-Snapshot Locator\<close>

lemma distances_Nil [simp]: "distances t [] = []"
  by (simp add: distances_def map_filter_simps)

lemma distances_Cons_None:
  "Date_parse (fetched_at s) = None \<Longrightarrow> distances t (s # ss) = distances t ss"
  by (simp add: distances_def distance_def map_filter_simps)

lemma distances_Cons_Some:
  "Date_parse (fetched_at s) = Some ms \<Longrightarrow> distances t (s # ss) = \<bar>ms - t\<bar> # distances t ss"
  by (simp add: distances_def distance_def map_filter_simps)

lemma distances_empty_iff:
  "distances t ss = [] \<longleftrightarrow> list_all (\<lambda>s. Date_parse (fetched_at s) = None) ss"
proof (induction ss)
  case Nil
  show ?case by simp
next
  case (Cons s ss)
  then show ?case
    by (cases "Date_parse (fetched_at s)") (simp_all add: distances_Cons_None distances_Cons_Some)
qed

lemma min_distance_Cons_None:
  "Date_parse (fetched_at s) = None \<Longrightarrow> min_distance t (s # ss) = min_distance t ss"
  by (simp add: min_distance_def distances_Cons_None)

lemma min_distance_Cons_Some:
  assumes "Date_parse (fetched_at s) = Some ms"
  shows "min_distance t (s # ss) =
           (if distances t ss = [] then \<bar>ms - t\<bar> else min \<bar>ms - t\<bar> (min_distance t ss))"
  using assms by (simp add: min_distance_def distances_Cons_Some)

text \<open>
  What the loop computes from any starting pair: it leaves the pair alone unless some
  snapshot is strictly closer than \<open>bestDiff\<close>, and then it holds the first snapshot at the
  least distance.
\<close>

lemma nearest_loop_char:
  "nearest_loop t ss (b, bd) =
     (if distances t ss = [] \<or> \<not> less_bound (min_distance t ss) bd then (b, bd)
      else (find (\<lambda>s. distance t s = Some (min_distance t ss)) ss,
            Finite (min_distance t ss)))"
proof (induction ss arbitrary: b bd)
  case Nil
  show ?case by simp
next
  case (Cons s ss)
  show ?case
  proof (cases "Date_parse (fetched_at s)")
    case None
    then have "distance t s = None" by (simp add: distance_def)
    with None Cons show ?thesis
      by (simp add: distances_Cons_None min_distance_Cons_None)
  next
    case (Some ms)
    define d where "d = \<bar>ms - t\<bar>"
    define M where "M = min_distance t ss"
    have ds: "distances t (s # ss) = d # distances t ss"
      using Some by (simp add: distances_Cons_Some d_def)
    have dist: "distance t s = Some d"
      using Some by (simp add: distance_def d_def)
    have m: "min_distance t (s # ss) = (if distances t ss = [] then d else min d M)"
      using Some by (simp add: min_distance_Cons_Some d_def M_def)
    show ?thesis
    proof (cases "less_bound d bd")
      case True
      then have lb: "less_bound (min d M) bd"
        by (cases bd) auto
      from True Some have "nearest_loop t (s # ss) (b, bd) = nearest_loop t ss (Some s, Finite d)"
        by (simp add: d_def)
      also have "\<dots> = (if distances t ss = [] \<or> \<not> M < d then (Some s, Finite d)
            else (find (\<lambda>s. distance t s = Some M) ss, Finite M))"
        by (simp add: Cons M_def)
      finally show ?thesis
        using True lb dist by (auto simp: m ds M_def[symmetric] min_def)
    next
      case nlb: False
      then obtain bb where bd: "bd = Finite bb" and ge: "bb \<le> d"
        by (cases bd) auto
      from nlb Some have "nearest_loop t (s # ss) (b, bd) = nearest_loop t ss (b, bd)"
        by (simp add: d_def)
      then show ?thesis
        using dist bd ge by (auto simp: Cons m ds M_def[symmetric] min_def)
    qed
  qed
qed

lemma find_min_distance:
  assumes "distances t ss \<noteq> []"
  shows "\<exists>s. find (\<lambda>s. distance t s = Some (min_distance t ss)) ss = Some s"
proof -
  have "min_distance t ss \<in> set (distances t ss)"
    unfolding min_distance_def using assms by (intro Min_in) auto
  then obtain s where "s \<in> set ss" "distance t s = Some (min_distance t ss)"
    by (auto simp: distances_def map_filter_def)
  then have "find (\<lambda>s. distance t s = Some (min_distance t ss)) ss \<noteq> None"
    by (auto simp: find_None_iff)
  then show ?thesis by auto
qed

text \<open>
  Claim C4. \<open>nearestSnapshot\<close> returns none on an empty list, none when no snapshot has a
  timestamp that parses, none when the least distance from the target is strictly greater
  than the tolerance in milliseconds, and otherwise the first snapshot, in list order, whose
  distance is the least one; in that last case there is such a snapshot.
\<close>

theorem nearestSnapshot_spec:
  "nearestSnapshot snaps targetMs toleranceMinutes =
     (if snaps = [] then None
      else if list_all (\<lambda>s. Date_parse (fetched_at s) = None) snaps then None
      else if min_distance targetMs snaps > toleranceMinutes * 60 * 1000 then None
      else find (\<lambda>s. distance targetMs s = Some (min_distance targetMs snaps)) snaps)
   \<and> (list_all (\<lambda>s. Date_parse (fetched_at s) = None) snaps
      \<or> (\<exists>s. find (\<lambda>s. distance targetMs s = Some (min_distance targetMs snaps)) snaps
               = Some s))"
proof (cases "distances targetMs snaps = []")
  case True
  then show ?thesis
    by (auto simp: nearestSnapshot_def nearest_loop_char distances_empty_iff)
next
  case False
  then have ne: "snaps \<noteq> []"
    and np: "\<not> list_all (\<lambda>s. Date_parse (fetched_at s) = None) snaps"
    by (auto simp: distances_empty_iff)
  from find_min_distance[OF False] obtain s where
    "find (\<lambda>s. distance targetMs s = Some (min_distance targetMs snaps)) snaps = Some s" ..
  with False ne np show ?thesis
    by (simp add: nearestSnapshot_def nearest_loop_char)
qed

text \<open>
  On the sample history: the morning target finds the snapshot of 09:58, two minutes away,
  with a tolerance of 90 minutes and nothing with a tolerance of one minute.
\<close>

theorem nearestSnapshot_spec_witness:
  "nearestSnapshot [snap_yesterday, snap_today] target10am 90 = Some snap_today
   \<and> nearestSnapshot [snap_yesterday, snap_today] target10am 1 = None
   \<and> nearestSnapshot [] target10am 90 = None"
proof -
  have a: "min_distance target10am [snap_yesterday, snap_today] = 120000"
    by code_simp
  have b: "find (\<lambda>s. distance target10am s = Some 120000) [snap_yesterday, snap_today]
             = Some snap_today"
    by code_simp
  have c: "\<not> list_all (\<lambda>s. Date_parse (fetched_at s) = None) [snap_yesterday, snap_today]"
    by (simp add: snap_yesterday_def)
  show ?thesis
    using nearestSnapshot_spec [of "[snap_yesterday, snap_today]" target10am 90]
          nearestSnapshot_spec [of "[snap_yesterday, snap_today]" target10am 1]
          nearestSnapshot_spec [of "[]" target10am 90] a b c
    by simp
qed

section \<open>Diff Engine\<close>

lemma set_setOfOpen_loop:
  "set (setOfOpen_loop es out) =
     set out \<union> {n. \<exists>s. (n, s) \<in> set es \<and> toLowerCase s = ''open''}"
  by (induction es out rule: setOfOpen_loop.induct) (auto simp: set_add_def)

lemma distinct_setOfOpen_loop:
  "distinct out \<Longrightarrow> distinct (setOfOpen_loop es out)"
  by (induction es out rule: setOfOpen_loop.induct) (auto simp: set_add_def)

lemma set_setOfOpen:
  "set (setOfOpen obj) = {n. \<exists>s. (n, s) \<in> set obj \<and> toLowerCase s = ''open''}"
  by (simp add: setOfOpen_def set_setOfOpen_loop)

lemma distinct_setOfOpen: "distinct (setOfOpen obj)"
  by (simp add: setOfOpen_def distinct_setOfOpen_loop)

lemma status_lower:
  "s \<in> statuses \<Longrightarrow> toLowerCase s = ''open'' \<longleftrightarrow> s = ''open''"
  by (auto simp: statuses_def toLowerCase_def lower_char_def)

lemma status_map_open:
  assumes "status_map obj"
  shows "set (setOfOpen obj) = {n. map_of obj n = Some ''open''}"
proof -
  from assms have d: "distinct (map fst obj)"
    and v: "\<And>n s. (n, s) \<in> set obj \<Longrightarrow> s \<in> statuses"
    by (auto simp: status_map_def list_all_iff)
  have "(\<exists>s. (n, s) \<in> set obj \<and> toLowerCase s = ''open'') \<longleftrightarrow> map_of obj n = Some ''open''"
    for n
  proof
    assume "\<exists>s. (n, s) \<in> set obj \<and> toLowerCase s = ''open''"
    then obtain s where s: "(n, s) \<in> set obj" "toLowerCase s = ''open''" by blast
    with v[OF s(1)] have "s = ''open''" by (simp add: status_lower)
    with s(1) d show "map_of obj n = Some ''open''" by simp
  next
    assume "map_of obj n = Some ''open''"
    then have "(n, ''open'') \<in> set obj" by (rule map_of_SomeD)
    moreover have "toLowerCase ''open'' = ''open''" by (simp add: toLowerCase_def lower_char_def)
    ultimately show "\<exists>s. (n, s) \<in> set obj \<and> toLowerCase s = ''open''" by blast
  qed
  then show ?thesis by (simp add: set_setOfOpen)
qed

lemma strict_sorted_sort_filter:
  "distinct xs \<Longrightarrow> sorted_wrt (<) (sort (filter P xs))"
  by (simp add: strict_sorted_iff)

text \<open>
  For any two objects, whatever their values: a name counts as open when the lower-cased
  value of one of its entries is \<open>open\<close>; \<open>opened\<close> and \<open>closed\<close> are the two differences of
  the sets of open names.
\<close>

lemma diffOpens_sets:
  "set (opened (diffOpens prev cur)) = set (setOfOpen cur) - set (setOfOpen prev)
   \<and> set (closed (diffOpens prev cur)) = set (setOfOpen prev) - set (setOfOpen cur)"
  by (auto simp: diffOpens_def Let_def set_has_def)

lemma diffOpens_sorted:
  "sorted_wrt (<) (opened (diffOpens prev cur)) \<and> sorted_wrt (<) (closed (diffOpens prev cur))"
  by (simp add: diffOpens_def Let_def strict_sorted_sort_filter distinct_setOfOpen)

text \<open>
  Claim C5. For name-to-status maps \<open>prev\<close> and \<open>cur\<close>, the list \<open>opened\<close> holds exactly the
  names whose status is \<open>open\<close> in \<open>cur\<close> and is not \<open>open\<close> in \<open>prev\<close> (another status, or
  no entry), the list \<open>closed\<close> exactly the names whose status is \<open>open\<close> in \<open>prev\<close> and is
  not \<open>open\<close> in \<open>cur\<close>; both lists are in strictly ascending lexicographic order, for any
  two objects.
\<close>

theorem diffOpens_spec:
  "(status_map prev \<and> status_map cur \<longrightarrow>
      set (opened (diffOpens prev cur)) =
        {n. map_of cur n = Some ''open'' \<and> map_of prev n \<noteq> Some ''open''}
      \<and> set (closed (diffOpens prev cur)) =
        {n. map_of prev n = Some ''open'' \<and> map_of cur n \<noteq> Some ''open''})
   \<and> sorted_wrt (<) (opened (diffOpens prev cur))
   \<and> sorted_wrt (<) (closed (diffOpens prev cur))"
  using status_map_open[of prev] status_map_open[of cur] diffOpens_sets[of prev cur]
    diffOpens_sorted[of prev cur]
  by auto

text \<open>The example of the specification: \<open>A\<close> closes and \<open>B\<close> opens.\<close>

theorem diffOpens_spec_witness:
  "status_map [(''A'', ''open''), (''B'', ''closed'')] \<and>
   status_map [(''A'', ''closed''), (''B'', ''open'')] \<and>
   set (opened (diffOpens [(''A'', ''open''), (''B'', ''closed'')]
                          [(''A'', ''closed''), (''B'', ''open'')])) = {''B''} \<and>
   set (closed (diffOpens [(''A'', ''open''), (''B'', ''closed'')]
                          [(''A'', ''closed''), (''B'', ''open'')])) = {''A''}"
proof -
  have sm: "status_map [(''A'', ''open''), (''B'', ''closed'')]"
    "status_map [(''A'', ''closed''), (''B'', ''open'')]"
    by (simp_all add: status_map_def statuses_def)
  have "{n. map_of [(''A'', ''closed''), (''B'', ''open'')] n = Some ''open''
           \<and> map_of [(''A'', ''open''), (''B'', ''closed'')] n \<noteq> Some ''open''} = {''B''}"
    by auto
  moreover have "{n. map_of [(''A'', ''open''), (''B'', ''closed'')] n = Some ''open''
           \<and> map_of [(''A'', ''closed''), (''B'', ''open'')] n \<noteq> Some ''open''} = {''A''}"
    by auto
  ultimately show ?thesis
    using diffOpens_spec [of "[(''A'', ''open''), (''B'', ''closed'')]"
                             "[(''A'', ''closed''), (''B'', ''open'')]"] sm
    by simp
qed

section \<open>Schedule Gate\<close>

text \<open>
  Claim C6. The gate authorizes a poll exactly when the local month is in the season
  (November to May), the local minutes since midnight are in the window from 05:00
  (included) to 23:00 (excluded), and either no earlier poll is recorded with a timestamp
  that parses, or the time elapsed since it is negative, or it is at least the interval of
  the current sub-window: 5 minutes in the rolling-opening period, 10 minutes otherwise.
\<close>

theorem shouldRunNow_iff:
  "shouldRunNow now nowParts prior \<longleftrightarrow>
     inSeason (month nowParts)
     \<and> 5 * 60 \<le> minutesSinceMidnight nowParts \<and> minutesSinceMidnight nowParts < 23 * 60
     \<and> (case last_poll prior of
          None \<Rightarrow> True
        | Some last_ms \<Rightarrow>
            now - last_ms < 0
            \<or> now - last_ms \<ge> (if rolling_opening (minutesSinceMidnight nowParts)
                                 then 5 * 60 * 1000 else 10 * 60 * 1000))"
  unfolding shouldRunNow_def getMinIntervalMs_def last_poll_def rolling_opening_def Let_def
  by (cases prior; cases "Date_parse (fetched_at (the prior))";
      cases "fetched_at (the prior)"; simp; linarith?)

text \<open>
  The examples of the specification, in the sample zone: at 08:00 in January a poll four
  minutes old blocks the gate, one six minutes old does not, nor does one recorded in the
  future; in June the gate is closed.
\<close>

theorem shouldRunNow_iff_witness:
  "\<not> shouldRunNow 1705420800000 (getVancouverParts vancouver 1705420800000)
        (Some (status_written_at (1705420800000 - 4 * 60 * 1000)))
   \<and> shouldRunNow 1705420800000 (getVancouverParts vancouver 1705420800000)
        (Some (status_written_at (1705420800000 - 6 * 60 * 1000)))
   \<and> shouldRunNow 1705420800000 (getVancouverParts vancouver 1705420800000)
        (Some (status_written_at (1705420800000 + 1)))
   \<and> \<not> shouldRunNow 1718722800000 (getVancouverParts vancouver 1718722800000) None"
proof -
  have p: "getVancouverParts vancouver 1705420800000
             = \<lparr>year = 2024, month = 1, day = 16, hour = 8, minute = 0\<rparr>"
    "getVancouverParts vancouver 1718722800000
             = \<lparr>year = 2024, month = 6, day = 18, hour = 8, minute = 0\<rparr>"
    by code_simp+
  show ?thesis
    unfolding p
    using shouldRunNow_iff [of 1705420800000 "\<lparr>year = 2024, month = 1, day = 16, hour = 8, minute = 0\<rparr>"
            "Some (status_written_at (1705420800000 - 4 * 60 * 1000))"]
          shouldRunNow_iff [of 1705420800000 "\<lparr>year = 2024, month = 1, day = 16, hour = 8, minute = 0\<rparr>"
            "Some (status_written_at (1705420800000 - 6 * 60 * 1000))"]
          shouldRunNow_iff [of 1705420800000 "\<lparr>year = 2024, month = 1, day = 16, hour = 8, minute = 0\<rparr>"
            "Some (status_written_at (1705420800000 + 1))"]
          shouldRunNow_iff [of 1718722800000 "\<lparr>year = 2024, month = 6, day = 18, hour = 8, minute = 0\<rparr>" None]
    by (simp add: inSeason_def minutesSinceMidnight_def last_poll_def rolling_opening_def
          status_written_at_def)
qed

section \<open>Timezone Resolver\<close>

lemma new_Date_of_int [simp]: "new_Date (real_of_int i) = i"
  by (simp add: new_Date_def)

lemma getOffsetMinutes_shows:
  assumes "shows_offset fmt u off" and "u mod 1000 = 0"
  shows "getOffsetMinutes fmt u = real_of_int off"
  using assms by (simp add: shows_offset_def getOffsetMinutes_def getTzParts_def Let_def)

lemma whole_second: "(t - t mod 1000) mod 1000 = (0::int)"
  by (simp add: minus_mod_eq_mult_div)

lemma whole_second_shift:
  fixes u :: int
  assumes "u mod 1000 = 0"
  shows "(u + k * 60000) mod 1000 = 0"
proof -
  have "(1000::int) dvd u" using assms by (simp add: mod_eq_0_iff_dvd)
  moreover have "(1000::int) dvd k * 60000" by (rule dvd_mult) simp
  ultimately have "(1000::int) dvd u + k * 60000" by (rule dvd_add)
  then show ?thesis by (simp add: mod_eq_0_iff_dvd)
qed

text \<open>
  The two passes, for any formatter: when the zone shows the offset \<open>a\<close> at \<open>t\<close>, the offset
  \<open>b\<close> at the first guess and the offset \<open>c\<close> at the corrected guess, the result is \<open>t\<close>
  cut to the second and moved by \<open>a - c\<close> minutes.
\<close>

lemma zonedTimeToUtc_fixed_point:
  assumes h1: "shows_offset fmt t a"
      and h2: "shows_offset fmt (t - t mod 1000 + a * 60000) b"
      and h3: "shows_offset fmt (t - t mod 1000 + (a - b) * 60000) c"
  shows "zonedTimeToUtc fmt (getTzParts fmt t) = t - t mod 1000 + (a - c) * 60000"
proof -
  define t' where "t' = t - t mod 1000"
  define p where "p = fmt t"
  have t'0: "t' mod 1000 = 0"
    unfolding t'_def by (rule whole_second)
  have guess: "Date_UTC (year p) (month p - 1) (day p) (hour p) (minute p) (second p)
                 = t' + a * 60000"
    using h1 by (simp add: shows_offset_def Let_def p_def t'_def)
  have o1: "getOffsetMinutes fmt (t' + a * 60000) = real_of_int b"
    using h2 whole_second_shift[OF t'0, of a] by (intro getOffsetMinutes_shows) (simp_all add: t'_def)
  have u1: "real_of_int (t' + a * 60000) - real_of_int b * 60000
              = real_of_int (t' + (a - b) * 60000)"
    by (simp add: algebra_simps)
  have o2: "getOffsetMinutes fmt (t' + (a - b) * 60000) = real_of_int c"
    using h3 whole_second_shift[OF t'0, of "a - b"] by (intro getOffsetMinutes_shows) (simp_all add: t'_def)
  have u2: "real_of_int (t' + a * 60000) - real_of_int c * 60000
              = real_of_int (t' + (a - c) * 60000)"
    by (simp add: algebra_simps)
  show ?thesis
    unfolding zonedTimeToUtc_def getTzParts_def p_def[symmetric] Let_def guess o1 u1
      new_Date_of_int o2 u2 t'_def[symmetric]
    by simp
qed

lemma same_minute: "(t - t mod 1000) div 60000 = t div (60000::int)"
proof -
  have "(t - t mod 1000) div 60000 = (1000 * (t div 1000)) div (1000 * 60)"
    by (simp add: minus_mod_eq_mult_div)
  also have "\<dots> = (t div 1000) div 60"
    by (rule div_mult_mult1) simp
  also have "\<dots> = t div (1000 * 60)"
    by (simp add: div_mult2_eq)
  finally show ?thesis by simp
qed

lemma floor_second_less:
  fixes t S :: int
  assumes "S mod 1000 = 0"
  shows "t - t mod 1000 < S \<longleftrightarrow> t < S"
proof
  assume "t < S"
  moreover have "t - t mod 1000 \<le> t" by simp
  ultimately show "t - t mod 1000 < S" by linarith
next
  assume less: "t - t mod 1000 < S"
  have "(1000::int) dvd S" using assms by (simp add: mod_eq_0_iff_dvd)
  moreover have "(1000::int) dvd t - t mod 1000" by (simp add: minus_mod_eq_mult_div)
  ultimately have "(1000::int) dvd S - (t - t mod 1000)" by (rule dvd_diff)
  then obtain k where k: "S - (t - t mod 1000) = 1000 * k" by (auto elim: dvdE)
  with less have "k \<ge> 1" by linarith
  with k have "t - t mod 1000 + 1000 \<le> S" by linarith
  moreover have "t mod 1000 < 1000" by simp
  ultimately show "t < S" by linarith
qed

text \<open>
  A zone west of Greenwich that changes its offset from \<open>a\<close> to \<open>b\<close> minutes at the instant
  \<open>T\<close>: the round trip returns \<open>t\<close> cut to the second, except in the \<open>a - b\<close> minutes that
  follow a change to a smaller offset (the second pass of the repeated wall-clock hour),
  where it returns the instant \<open>a - b\<close> minutes earlier.
\<close>

lemma roundtrip_single_transition:
  assumes west: "a \<le> 0" "b \<le> 0"
      and T: "T mod 1000 = 0"
      and rule: "\<forall>u \<in> {t, t - t mod 1000, t - t mod 1000 + a * 60000, t - t mod 1000 + b * 60000,
                        t - t mod 1000 + (b - a) * 60000}.
                   shows_offset fmt u (if u < T then a else b)"
  shows "zonedTimeToUtc fmt (getTzParts fmt t) =
           (if T \<le> t \<and> t < T + (a - b) * 60000 then t - t mod 1000 - (a - b) * 60000
            else t - t mod 1000)"
proof -
  define t' where "t' = t - t mod 1000"
  have t'0: "t' mod 1000 = 0"
    unfolding t'_def by (rule whole_second)
  have lt: "t < T \<longleftrightarrow> t' < T"
    unfolding t'_def using floor_second_less[OF T, of t] by simp
  have r: "shows_offset fmt t (if t < T then a else b)"
    "shows_offset fmt t' (if t' < T then a else b)"
    "shows_offset fmt (t' + a * 60000) (if t' + a * 60000 < T then a else b)"
    "shows_offset fmt (t' + b * 60000) (if t' + b * 60000 < T then a else b)"
    "shows_offset fmt (t' + (b - a) * 60000) (if t' + (b - a) * 60000 < T then a else b)"
    using rule by (simp_all add: t'_def)
  show ?thesis
  proof (cases "t' < T")
    case True
    with west have g: "t' + a * 60000 < T" by linarith
    have "zonedTimeToUtc fmt (getTzParts fmt t) = t - t mod 1000 + (a - a) * 60000"
      using r(1,2,3) True g lt by (intro zonedTimeToUtc_fixed_point[where b = a]) (simp_all add: t'_def)
    with True lt show ?thesis by (simp add: t'_def)
  next
    case False
    then have tb: "\<not> t < T" using lt by simp
    show ?thesis
    proof (cases "t' + b * 60000 < T")
      case g: True
      show ?thesis
      proof (cases "t' + (b - a) * 60000 < T")
        case True
        have "zonedTimeToUtc fmt (getTzParts fmt t) = t - t mod 1000 + (b - a) * 60000"
          using r(1,4,5) True g tb by (intro zonedTimeToUtc_fixed_point[where b = a]) (simp_all add: t'_def)
        moreover have "t < T + (a - b) * 60000"
        proof -
          have "(T + (a - b) * 60000) mod 1000 = 0"
            using T by (rule whole_second_shift)
          moreover have "t' < T + (a - b) * 60000" using True by (simp add: algebra_simps)
          ultimately show ?thesis
            unfolding t'_def using floor_second_less[of "T + (a - b) * 60000" t] by simp
        qed
        ultimately show ?thesis using tb by (simp add: algebra_simps)
      next
        case False
        have "zonedTimeToUtc fmt (getTzParts fmt t) = t - t mod 1000 + (b - b) * 60000"
          using r(1,4,5) False g tb by (intro zonedTimeToUtc_fixed_point[where b = a]) (simp_all add: t'_def)
        moreover have "\<not> t < T + (a - b) * 60000"
        proof -
          have "t' \<le> t" by (simp add: t'_def)
          with False show ?thesis by (simp add: algebra_simps)
        qed
        ultimately show ?thesis by simp
      qed
    next
      case g: False
      have "zonedTimeToUtc fmt (getTzParts fmt t) = t - t mod 1000 + (b - b) * 60000"
        using r(1,2,4) False g tb by (intro zonedTimeToUtc_fixed_point[where b = b]) (simp_all add: t'_def)
      moreover have "\<not> t < T + (a - b) * 60000"
      proof -
        have "t' \<le> t" by (simp add: t'_def)
        with g west show ?thesis by (simp add: algebra_simps)
      qed
      ultimately show ?thesis by simp
    qed
  qed
qed


text \<open>
  Claim C7. Let the zone be west of Greenwich and change its offset from \<open>a\<close> to \<open>b\<close>
  minutes at the instant \<open>T\<close> (\<open>a = b\<close> when no change is near), as the formatter shows at
  \<open>t\<close> and at the instants the two passes look at. For every instant \<open>t\<close> outside the exact
  transition hour (the \<open>a - b\<close> minutes from \<open>T\<close> on when the clocks go back, no instant
  when they go forward), \<open>zonedTimeToUtc (getTzParts t)\<close> is \<open>t\<close> cut to the second, hence
  the same minute as \<open>t\<close>, in daylight-saving time and outside it.
\<close>

theorem zonedTimeToUtc_roundtrip:
  assumes "a \<le> 0" and "b \<le> 0" and "T mod 1000 = 0"
      and "\<forall>u \<in> {t, t - t mod 1000, t - t mod 1000 + a * 60000, t - t mod 1000 + b * 60000,
                    t - t mod 1000 + (b - a) * 60000}.
             shows_offset fmt u (if u < T then a else b)"
      and "\<not> (T \<le> t \<and> t < T + (a - b) * 60000)"
  shows "zonedTimeToUtc fmt (getTzParts fmt t) = t - t mod 1000
       \<and> zonedTimeToUtc fmt (getTzParts fmt t) div 60000 = t div 60000"
  using roundtrip_single_transition[OF assms(1-4)] assms(5) same_minute[of t] by simp

text \<open>
  The sample zone at 2024-11-03T10:30:00.123Z, ninety minutes after the clocks went back,
  and at 2024-03-10T10:30Z, thirty minutes after they went forward: in both the first pass
  alone is an hour off and the second pass repairs it.
\<close>

theorem zonedTimeToUtc_roundtrip_witness:
  "zonedTimeToUtc vancouver (getTzParts vancouver 1730629800123) = 1730629800000
   \<and> zonedTimeToUtc vancouver (getTzParts vancouver 1710066600000) = 1710066600000"
proof -
  have fall: "\<forall>u \<in> {1730629800123, 1730629800123 - 1730629800123 mod 1000,
              1730629800123 - 1730629800123 mod 1000 + (- 420) * 60000,
              1730629800123 - 1730629800123 mod 1000 + (- 480) * 60000,
              1730629800123 - 1730629800123 mod 1000 + (- 480 - (- 420)) * 60000}.
          shows_offset vancouver u (if u < 1730624400000 then - 420 else - 480)"
    by simp (intro conjI; code_simp)
  have spring: "\<forall>u \<in> {1710066600000, 1710066600000 - 1710066600000 mod 1000,
              1710066600000 - 1710066600000 mod 1000 + (- 480) * 60000,
              1710066600000 - 1710066600000 mod 1000 + (- 420) * 60000,
              1710066600000 - 1710066600000 mod 1000 + (- 420 - (- 480)) * 60000}.
          shows_offset vancouver u (if u < 1710064800000 then - 480 else - 420)"
    by simp (intro conjI; code_simp)
  have "zonedTimeToUtc vancouver (getTzParts vancouver 1730629800123)
          = 1730629800123 - 1730629800123 mod 1000"
    using zonedTimeToUtc_roundtrip[OF _ _ _ fall] by simp
  moreover have "zonedTimeToUtc vancouver (getTzParts vancouver 1710066600000)
          = 1710066600000 - 1710066600000 mod 1000"
    using zonedTimeToUtc_roundtrip[OF _ _ _ spring] by simp
  ultimately show ?thesis by simp
qed

text \<open>
  The first pass alone, at these two instants: the first guess corrected by its own offset
  is 09:30Z instead of 10:30Z in November, 11:30Z instead of 10:30Z in March.
\<close>

lemma first_pass_alone:
  "(let p = getTzParts vancouver 1730629800123;
        guess = Date_UTC (year p) (month p - 1) (day p) (hour p) (minute p) (second p)
    in new_Date (real_of_int guess - getOffsetMinutes vancouver guess * 60000)) = 1730626200000
   \<and> (let p = getTzParts vancouver 1710066600000;
        guess = Date_UTC (year p) (month p - 1) (day p) (hour p) (minute p) (second p)
    in new_Date (real_of_int guess - getOffsetMinutes vancouver guess * 60000)) = 1710070200000"
  by code_simp

text \<open>
  The edge case the guarantee leaves out, inside the transition hour: 2024-11-03T09:30Z is
  01:30 for the second time that night in the sample zone, and the round trip returns
  08:30Z, the first 01:30.
\<close>

lemma roundtrip_repeated_hour:
  "zonedTimeToUtc vancouver (getTzParts vancouver 1730626200000) = 1730622600000
   \<and> zonedTimeToUtc vancouver (getTzParts vancouver 1730626200000) div 60000
       \<noteq> 1730626200000 div 60000"
  by code_simp

section \<open>Event Controller\<close>

text \<open>
  Claim C1. When the searches for the morning target and for the afternoon target both find
  a snapshot and the key stored in the metadata is not the key of this window, the event is
  built and written and the metadata takes this key (and the creation time) exactly when the
  names opened, lifts and trails together, are at least 3 or the names closed are at least
  3. In every other case (a snapshot missing, the key already stored, both counts below 3)
  \<open>event.json\<close> and the metadata are as they were. In particular a run that meets the key
  of its own window in the metadata, whatever its snapshots, writes no event and leaves the
  metadata alone.
\<close>

theorem event_controller_spec:
  "event_controller snaps t10 t15 today yest meta0 event_file t_new =
     (case (nearestSnapshot snaps t10 90, nearestSnapshot snaps t15 300) of
        (Some s10, Some s3) \<Rightarrow>
          if last_event_key meta0 \<noteq> Some (eventKey_of today yest)
             \<and> (3 \<le> opened_count s3 s10 \<or> 3 \<le> closed_count s3 s10)
          then (Some (make_event (eventKey_of today yest) t_new s3 s10
                        (diffOpens (lifts s3) (lifts s10)) (diffOpens (trails s3) (trails s10))),
                meta0\<lparr>last_event_key := Some (eventKey_of today yest),
                      last_event_created_at := Some (toISOString t_new)\<rparr>)
          else (event_file, meta0)
      | _ \<Rightarrow> (event_file, meta0))
   \<and> (last_event_key meta1 = Some (eventKey_of today yest)
      \<longrightarrow> event_controller snaps t10 t15 today yest meta1 event_file t_new
            = (event_file, meta1))"
  by (simp add: event_controller_def Let_def opened_count_def closed_count_def make_event_def
        OPEN_THRESHOLD_def CLOSE_THRESHOLD_def split: option.splits)

text \<open>
  The scenario of the specification: three names opened between yesterday 15:02 and today
  09:58 fire the event, with \<open>opened_total = 3\<close>, under the key of the day; a second run
  that finds this key in the metadata writes nothing and leaves the metadata alone.
\<close>

theorem event_controller_spec_witness:
  "map_option opened_total
     (fst (event_controller [snap_yesterday, snap_today] target10am target3pm
             (vancouver 1705428300000) (vancouver 1705341900000)
             no_meta None 1705428300000)) = Some 3
   \<and> last_event_key
       (snd (event_controller [snap_yesterday, snap_today] target10am target3pm
               (vancouver 1705428300000) (vancouver 1705341900000)
               no_meta None 1705428300000)) = Some ''2024-01-16_10am_vs_2024-01-15_3pm''
   \<and> event_controller [snap_yesterday, snap_today] target10am target3pm
         (vancouver 1705428300000) (vancouver 1705341900000)
         \<lparr>last_event_key = Some ''2024-01-16_10am_vs_2024-01-15_3pm'',
          last_event_created_at = Some (Time 1705428000000)\<rparr> None 1705428300000
       = (None, \<lparr>last_event_key = Some ''2024-01-16_10am_vs_2024-01-15_3pm'',
                 last_event_created_at = Some (Time 1705428000000)\<rparr>)"
proof -
  have e1: "nearestSnapshot [snap_yesterday, snap_today] target10am 90 = Some snap_today"
    by code_simp
  have e2: "nearestSnapshot [snap_yesterday, snap_today] target3pm 300 = Some snap_yesterday"
    by code_simp
  have e3: "opened_count snap_yesterday snap_today = 3"
    by code_simp
  have e4: "eventKey_of (vancouver 1705428300000) (vancouver 1705341900000)
              = ''2024-01-16_10am_vs_2024-01-15_3pm''"
    by code_simp
  have e5: "opened_total (make_event k t snap_yesterday snap_today
              (diffOpens (lifts snap_yesterday) (lifts snap_today))
              (diffOpens (trails snap_yesterday) (trails snap_today))) = 3" for k t
    using e3 by (simp add: make_event_def opened_count_def)
  show ?thesis
    using event_controller_spec [of "[snap_yesterday, snap_today]" target10am target3pm
            "vancouver 1705428300000" "vancouver 1705341900000" no_meta None 1705428300000
            "\<lparr>last_event_key = Some ''2024-01-16_10am_vs_2024-01-15_3pm'',
              last_event_created_at = Some (Time 1705428000000)\<rparr>"]
    by (simp add: e1 e2 e3 e4 e5 no_meta_def)
qed

text \<open>
  Claim C8, on the code. The search for the afternoon target is called with 300 minutes
  (line 301, whose comment asks to change it back to 90). With yesterday's only snapshot
  taken at 11:40, 200 minutes before the target, a search with 90 minutes finds nothing, the
  search with 300 finds it, and the controller fires an event.
\<close>

theorem afternoon_tolerance_is_300:
  "nearestSnapshot [snap_yesterday_early, snap_today] target3pm 90 = None
   \<and> nearestSnapshot [snap_yesterday_early, snap_today] target3pm 300 = Some snap_yesterday_early
   \<and> map_option opened_total
       (fst (event_controller [snap_yesterday_early, snap_today] target10am target3pm
               (vancouver 1705428300000) (vancouver 1705341900000)
               no_meta None 1705428300000)) = Some 4"
  by code_simp

section \<open>The polling script\<close>

text \<open>
  Claim C9. When the response of the upstream feed is not ok, the three files are after the
  run what they were before it; the run is aborted with the HTTP status when the gate had
  let it fetch (and is skipped, before any fetch, when the gate had not).
\<close>

theorem run_fetch_failure:
  assumes "\<not> res_ok res"
  shows "snd (run fmt clk res fs) = fs
       \<and> fst (run fmt clk res fs) =
           (if shouldRunNow (t_gate clk) (getVancouverParts fmt (t_gate clk)) (status_json fs)
            then Aborted (HTTP (res_status res)) else Skipped)"
  using assms by (simp add: run_def)

theorem run_fetch_failure_witness:
  "run vancouver
     \<lparr>t_gate = 1705420800000, t_fetched = 1705420800500, t_now = 1705420800600,
      t_created = 1705420800700\<rparr>
     \<lparr>res_ok = False, res_status = 503, res_json = None\<rparr> no_files
   = (Aborted (HTTP 503), no_files)"
proof -
  have gate: "shouldRunNow 1705420800000 (getVancouverParts vancouver 1705420800000) None"
    by code_simp
  show ?thesis
    using run_fetch_failure [of "\<lparr>res_ok = False, res_status = 503, res_json = None\<rparr>" vancouver
            "\<lparr>t_gate = 1705420800000, t_fetched = 1705420800500, t_now = 1705420800600,
              t_created = 1705420800700\<rparr>" no_files] gate
    by (simp add: no_files_def prod_eq_iff)
qed

section \<open>The publisher\<close>







end
